theory Spec2Isabelle
  imports Main "HOL-Library.Word"
begin

section \<open>Message cursors and the connect loop of ipc.cpp\<close>

text \<open>
  A shallow embedding of the four message operators defined in \<^verbatim>\<open>source/ipc.cpp\<close>
  (\<^verbatim>\<open>out_message::operator <<\<close> for strings and blobs, \<^verbatim>\<open>in_message::operator >>\<close>
  for strings and byte vectors) and of \<^verbatim>\<open>client_socket::connect_proc\<close>.

  The header \<^verbatim>\<open>include/ipc.hpp\<close> is not part of the sources at hand. What the operators
  use from it is either a parameter of the model (the three build switches, gathered in
  the record \<open>config\<close>) or a definition whose comment starts with
  ``Modelled from the spec''.

  Conventions:
  \<^item> \<^verbatim>\<open>std::vector<char>\<close>, \<^verbatim>\<open>std::string\<close>, \<^verbatim>\<open>std::string_view\<close> and
    \<^verbatim>\<open>std::vector<uint8_t>\<close> are lists of bytes (\<open>8 word\<close>);
  \<^item> \<^verbatim>\<open>size_t\<close> values are natural numbers: they are sums of a buffer offset, a length
    field and a small constant, which a 64-bit \<^verbatim>\<open>size_t\<close> holds without wrapping;
  \<^item> a value of \<^verbatim>\<open>__MSG_LENGTH_TYPE__\<close> is a natural number below \<open>256 ^ L\<close>, where
    \<open>L\<close> is the size of that type in bytes; casts to it and \<^verbatim>\<open>+=\<close> on it reduce
    modulo \<open>256 ^ L\<close>; in memory it is \<open>L\<close> bytes, least significant first (the claims
    do not depend on the byte order, only on storing and loading with the same one);
  \<^item> a thrown exception is the outcome \<open>Throws e s\<close>, with the state \<open>s\<close> the object is
    left in; the texts and numbers carried by the C++ exception objects are omitted;
  \<^item> a read or write outside \<^verbatim>\<open>m_buffer\<close> is undefined behaviour in C++; the model then
    yields \<open>Undefined\<close> and says nothing more.
\<close>

type_synonym byte = "8 word"

subsection \<open>Build switches\<close>

record config =
  msg_length_size :: nat  \<comment> \<open>\<^verbatim>\<open>sizeof(__MSG_LENGTH_TYPE__)\<close>\<close>
  get_max_size :: nat     \<comment> \<open>\<^verbatim>\<open>get_max_size()\<close>, the limit \<^verbatim>\<open>MAX\<close>\<close>
  msg_use_tags :: bool    \<comment> \<open>\<^verbatim>\<open>__MSG_USE_TAGS__\<close>\<close>

text \<open>
  Modelled from the spec: the default values of the build switches, which ipc.hpp would
  set (length prefix of 4 bytes, at most 64 KiB per message, tagged mode).
\<close>

definition default_config :: config where
  "default_config = \<lparr>msg_length_size = 4, get_max_size = 65536, msg_use_tags = True\<rparr>"

subsection \<open>Exceptions and outcomes\<close>

datatype error =
    bad_message_exception
  | message_overflow_exception
  | type_mismach_exception
  | message_too_short_exception
  | container_overflow_exception
  | active_socket_prepare_exception

datatype 's outcome = Returns 's | Throws error 's | Undefined

text \<open>The exception an outcome carries, if any.\<close>

fun thrown :: "'s outcome \<Rightarrow> error option" where
  "thrown (Throws e s) = Some e"
| "thrown (Returns s) = None"
| "thrown Undefined = None"

subsection \<open>The length type in memory\<close>

fun store_le :: "nat \<Rightarrow> nat \<Rightarrow> byte list" where
  "store_le 0 v = []"
| "store_le (Suc n) v = word_of_nat (v mod 256) # store_le n (v div 256)"

fun load_le :: "byte list \<Rightarrow> nat" where
  "load_le [] = 0"
| "load_le (b # bs) = unat b + 256 * load_le bs"

definition read_bytes :: "byte list \<Rightarrow> nat \<Rightarrow> nat \<Rightarrow> byte list option" where
  "read_bytes buf off n = (if off + n \<le> length buf then Some (take n (drop off buf)) else None)"

text \<open>\<^verbatim>\<open>*(__MSG_LENGTH_TYPE__*)&m_buffer[off]\<close>, read.\<close>

definition load_length :: "config \<Rightarrow> byte list \<Rightarrow> nat \<Rightarrow> nat option" where
  "load_length cfg buf off = map_option load_le (read_bytes buf off (msg_length_size cfg))"

text \<open>
  \<^verbatim>\<open>*(__MSG_LENGTH_TYPE__*)m_buffer.data() += (__MSG_LENGTH_TYPE__)v\<close>: the cast and the
  addition both wrap at the width of the length type. Only used on buffers that hold
  the length field (the operators read it first).
\<close>

definition add_length :: "config \<Rightarrow> byte list \<Rightarrow> nat \<Rightarrow> byte list" where
  "add_length cfg buf v =
     (let L = msg_length_size cfg;
          cur = load_le (take L buf)
      in store_le L ((cur + v mod 256 ^ L) mod 256 ^ L) @ drop L buf)"

subsection \<open>Type tags\<close>

datatype type_tag =
  tag_u32 | tag_i32 | tag_u64 | tag_i64 | tag_fp64 | tag_chr | tag_str | tag_remote_ptr | tag_blob

text \<open>
  Modelled from the spec: the byte of each tag (the table of type tags); the enumeration
  \<^verbatim>\<open>message::type_tag\<close> is declared in ipc.hpp.
\<close>

fun tag_byte :: "type_tag \<Rightarrow> byte" where
  "tag_byte tag_u32 = 0"
| "tag_byte tag_i32 = 1"
| "tag_byte tag_u64 = 2"
| "tag_byte tag_i64 = 3"
| "tag_byte tag_fp64 = 4"
| "tag_byte tag_chr = 5"
| "tag_byte tag_str = 6"
| "tag_byte tag_remote_ptr = 7"
| "tag_byte tag_blob = 8"

subsection \<open>Messages\<close>

record message =
  m_ok :: bool
  m_buffer :: "byte list"

type_synonym out_message = message

record in_message = message +
  m_offset :: nat

text \<open>
  Modelled from the spec: \<^verbatim>\<open>check_status<exception_t>(status, text)\<close> of ipc.hpp throws
  the exception when the fail flag is set (\<open>status\<close> false), and does nothing otherwise.
  \<open>None\<close> means that it returned.
\<close>

definition check_status :: "error \<Rightarrow> bool \<Rightarrow> error option" where
  "check_status e status = (if status then None else Some e)"

text \<open>
  Modelled from the spec: \<^verbatim>\<open>fail_status(thrower, status, ...)\<close> and
  \<^verbatim>\<open>fail_status<exception_t>(status, ...)\<close> of ipc.hpp latch the fail flag (set
  \<open>status\<close> to false) and throw; they never return. The reference \<^verbatim>\<open>bool& status\<close> is
  passed as the function that stores a value in the flag of the object.
\<close>

definition fail_status :: "error \<Rightarrow> (bool \<Rightarrow> 's) \<Rightarrow> 's outcome" where
  "fail_status e set_status = Throws e (set_status False)"

text \<open>
  Modelled from the spec: \<^verbatim>\<open>out_message::clear\<close> of ipc.hpp resets the buffer to a fresh
  length prefix of value \<open>L\<close> and clears the fail flag.
\<close>

definition clear :: "config \<Rightarrow> out_message \<Rightarrow> out_message" where
  "clear cfg m =
     m\<lparr>m_ok := True, m_buffer := store_le (msg_length_size cfg) (msg_length_size cfg)\<rparr>"

text \<open>
  Modelled from the spec: the constructor of \<^verbatim>\<open>out_message\<close> (in ipc.hpp) leaves the
  message as \<open>clear\<close> does.
\<close>

definition new_out_message :: "config \<Rightarrow> out_message" where
  "new_out_message cfg = clear cfg \<lparr>m_ok = True, m_buffer = []\<rparr>"

text \<open>
  Modelled from the spec: an \<^verbatim>\<open>in_message\<close> attached to a complete buffer has its read
  offset just past the length prefix and its fail flag clear (in ipc.hpp the buffer is
  filled by \<^verbatim>\<open>read_message\<close>).
\<close>

definition attach :: "config \<Rightarrow> byte list \<Rightarrow> in_message" where
  "attach cfg buf = \<lparr>m_ok = True, m_buffer = buf, m_offset = msg_length_size cfg\<rparr>"

subsection \<open>\<^verbatim>\<open>out_message::operator << (const std::string_view&)\<close>\<close>

definition out_string :: "config \<Rightarrow> out_message \<Rightarrow> byte list \<Rightarrow> out_message outcome" where
  "out_string cfg m s =
     (case check_status bad_message_exception (m_ok m) of
        Some e \<Rightarrow> Throws e m
      | None \<Rightarrow>
          let delta = (if msg_use_tags cfg then 2 else 1);
              len = length s
          in case load_length cfg (m_buffer m) 0 of
               None \<Rightarrow> Undefined
             | Some used \<Rightarrow>
                 let new_used = used + len + delta
                 in if new_used > get_max_size cfg
                    then fail_status message_overflow_exception (\<lambda>b. m\<lparr>m_ok := b\<rparr>)
                    else
                      let b1 = (if msg_use_tags cfg then m_buffer m @ [tag_byte tag_str]
                                else m_buffer m);
                          b2 = b1 @ s;
                          b3 = b2 @ [0]
                      in Returns (m\<lparr>m_buffer := add_length cfg b3 new_used\<rparr>))"

subsection \<open>\<^verbatim>\<open>out_message::operator << (const std::pair<const uint8_t*, size_t>&)\<close>\<close>

definition out_blob :: "config \<Rightarrow> out_message \<Rightarrow> byte list \<Rightarrow> out_message outcome" where
  "out_blob cfg m arg =
     (case check_status bad_message_exception (m_ok m) of
        Some e \<Rightarrow> Throws e m
      | None \<Rightarrow>
          let delta = (if msg_use_tags cfg then 1 else 0);
              len = length arg
          in case load_length cfg (m_buffer m) 0 of
               None \<Rightarrow> Undefined
             | Some used \<Rightarrow>
                 let new_used = used + len + delta
                 in if new_used > get_max_size cfg
                    then fail_status message_overflow_exception (\<lambda>b. m\<lparr>m_ok := b\<rparr>)
                    else
                      let b1 = (if msg_use_tags cfg then m_buffer m @ [tag_byte tag_blob]
                                else m_buffer m);
                          blob_len = len mod 256 ^ msg_length_size cfg;
                          b2 = b1 @ store_le (msg_length_size cfg) blob_len;
                          b3 = b2 @ arg
                      in Returns (m\<lparr>m_buffer := add_length cfg b3 new_used\<rparr>))"

subsection \<open>Reading a tag\<close>

text \<open>
  The tagged-mode block shared by both extractors: compare the byte at the read offset
  with the expected tag, fail before the offset moves, otherwise step over the tag. In
  untagged mode the block is compiled out.
\<close>

definition read_tag :: "config \<Rightarrow> type_tag \<Rightarrow> in_message \<Rightarrow> in_message outcome" where
  "read_tag cfg expected m =
     (if msg_use_tags cfg then
        (if m_offset m < length (m_buffer m) then
           (if m_buffer m ! m_offset m \<noteq> tag_byte expected
            then fail_status type_mismach_exception (\<lambda>b. m\<lparr>m_ok := b\<rparr>)
            else Returns (m\<lparr>m_offset := m_offset m + 1\<rparr>))
         else Undefined)
      else Returns m)"

subsection \<open>\<^verbatim>\<open>in_message::operator >> (std::string&)\<close>\<close>

datatype memchr_result = Found nat | Nullptr | Out_of_bounds

text \<open>
  \<^verbatim>\<open>memchr(&buf[off], 0, n)\<close>: the position of the first zero byte among the \<open>n\<close> bytes
  from \<open>off\<close>. The search stops at the first match; without a match it has read all
  \<open>n\<close> bytes, which must then lie inside the buffer.
\<close>

definition memchr :: "byte list \<Rightarrow> nat \<Rightarrow> nat \<Rightarrow> memchr_result" where
  "memchr buf off n =
     (let region = take n (drop off buf);
          k = length (takeWhile (\<lambda>b. b \<noteq> 0) region)
      in if k < length region then Found k
         else if off + n \<le> length buf then Nullptr
         else Out_of_bounds)"

definition in_string ::
  "config \<Rightarrow> in_message \<Rightarrow> byte list \<Rightarrow> in_message outcome \<times> byte list" where
  "in_string cfg m arg =
     (case check_status bad_message_exception (m_ok m) of
        Some e \<Rightarrow> (Throws e m, arg)
      | None \<Rightarrow>
          (case load_length cfg (m_buffer m) 0 of
             None \<Rightarrow> (Undefined, [])
           | Some msize \<Rightarrow>
               let delta = (if msg_use_tags cfg then 2 else 1)
               in if msize < m_offset m + delta
                  then (fail_status message_too_short_exception (\<lambda>b. m\<lparr>m_ok := b\<rparr>), [])
                  else
                    (case read_tag cfg tag_str m of
                       Returns m1 \<Rightarrow>
                         (case memchr (m_buffer m1) (m_offset m1) (msize - m_offset m1) of
                            Found k \<Rightarrow>
                              let str = take k (drop (m_offset m1) (m_buffer m1))
                              in (Returns (m1\<lparr>m_offset := m_offset m1 + length str + 1\<rparr>), str)
                          | Nullptr \<Rightarrow>
                              (Throws container_overflow_exception (m1\<lparr>m_ok := False\<rparr>), [])
                          | Out_of_bounds \<Rightarrow> (Undefined, []))
                     | other \<Rightarrow> (other, []))))"

subsection \<open>\<^verbatim>\<open>in_message::operator >> (std::vector<uint8_t>&)\<close>\<close>

definition in_blob ::
  "config \<Rightarrow> in_message \<Rightarrow> byte list \<Rightarrow> in_message outcome \<times> byte list" where
  "in_blob cfg m blob =
     (case check_status bad_message_exception (m_ok m) of
        Some e \<Rightarrow> (Throws e m, blob)
      | None \<Rightarrow>
          (case load_length cfg (m_buffer m) 0 of
             None \<Rightarrow> (Undefined, blob)
           | Some msize \<Rightarrow>
               let delta = (if msg_use_tags cfg then 1 + msg_length_size cfg
                            else msg_length_size cfg)
               in if msize < m_offset m + delta
                  then (fail_status message_too_short_exception (\<lambda>b. m\<lparr>m_ok := b\<rparr>), blob)
                  else
                    (case read_tag cfg tag_blob m of
                       Returns m1 \<Rightarrow>
                         (case load_length cfg (m_buffer m1) (m_offset m1) of
                            None \<Rightarrow> (Undefined, blob)
                          | Some blob_len \<Rightarrow>
                              let m2 = m1\<lparr>m_offset := m_offset m1 + msg_length_size cfg\<rparr>
                              in if msize < m_offset m2 + blob_len
                                 then (fail_status message_too_short_exception
                                         (\<lambda>b. m2\<lparr>m_ok := b\<rparr>), blob)
                                 else if blob_len \<noteq> 0 then
                                   (case read_bytes (m_buffer m2) (m_offset m2) blob_len of
                                      None \<Rightarrow> (Undefined, blob)
                                    | Some bytes \<Rightarrow>
                                        (Returns (m2\<lparr>m_offset := m_offset m2 + blob_len\<rparr>),
                                         bytes))
                                 else (Returns m2, blob))
                     | other \<Rightarrow> (other, blob))))"

subsection \<open>A sequence of extractions\<close>



subsection \<open>\<^verbatim>\<open>client_socket::connect_proc\<close>\<close>

text \<open>
  The socket calls are the environment of \<^verbatim>\<open>connect_proc\<close>. The \<open>i\<close>-th call of
  \<^verbatim>\<open>connect\<close> on the socket (counted from 0) returns a non-negative value when
  \<open>env i = None\<close>, and a negative one, with \<^verbatim>\<open>get_socket_error()\<close> giving \<open>e\<close>, when
  \<open>env i = Some e\<close>. The record of the socket carries, beside \<^verbatim>\<open>m_ok\<close> and whether
  \<^verbatim>\<open>m_socket\<close> differs from \<^verbatim>\<open>INVALID_SOCKET\<close>, two counters that observe the run:
  the calls of \<^verbatim>\<open>connect\<close> made and the seconds spent in
  \<^verbatim>\<open>std::this_thread::sleep_for\<close>. The model follows the branch of the source compiled
  without \<^verbatim>\<open>_WIN32\<close>.
\<close>

datatype errno = EAGAIN | ECONNREFUSED | EINPROGRESS | Other_errno nat

type_synonym connect_env = "nat \<Rightarrow> errno option"

record socket =
  sock_ok :: bool
  sock_valid :: bool
  connect_calls :: nat
  slept_seconds :: nat

definition max_attempts_count :: nat where
  "max_attempts_count = 10"

text \<open>
  The \<^verbatim>\<open>for\<close> loop, from the value \<open>attempt\<close> of its counter on. It returns the
  value of the counter at which the loop condition failed, or throws from its body.
\<close>

function connect_loop :: "connect_env \<Rightarrow> nat \<Rightarrow> socket \<Rightarrow> (nat \<times> socket) outcome" where
  "connect_loop env attempt s =
     (if attempt < max_attempts_count then
        (let s1 = s\<lparr>connect_calls := connect_calls s + 1\<rparr>
         in case env (connect_calls s) of
              None \<Rightarrow> Returns (attempt, s1)
            | Some err_code \<Rightarrow>
                if err_code = EAGAIN \<or> err_code = ECONNREFUSED \<or> err_code = EINPROGRESS
                then connect_loop env (attempt + 1)
                       (s1\<lparr>slept_seconds := slept_seconds s1 + 1\<rparr>)
                else fail_status active_socket_prepare_exception
                       (\<lambda>b. (attempt, s1\<lparr>sock_ok := b\<rparr>)))
      else Returns (attempt, s))"
  by pat_completeness auto
termination
  by (relation "measure (\<lambda>(env, attempt, s). max_attempts_count - attempt)") auto

declare connect_loop.simps [simp del]

text \<open>
  \<open>non_blocking\<close> is the result of \<^verbatim>\<open>set_non_blocking_mode(m_socket)\<close>, were it called.
\<close>

definition connect_proc :: "connect_env \<Rightarrow> bool \<Rightarrow> socket \<Rightarrow> socket outcome" where
  "connect_proc env non_blocking s =
     (if \<not> sock_valid s
      then fail_status active_socket_prepare_exception (\<lambda>b. s\<lparr>sock_ok := b\<rparr>)
      else
        (case connect_loop env 0 s of
           Returns (attempt, s1) \<Rightarrow>
             if attempt = max_attempts_count
             then fail_status active_socket_prepare_exception (\<lambda>b. s1\<lparr>sock_ok := b\<rparr>)
             else if \<not> non_blocking
             then fail_status active_socket_prepare_exception (\<lambda>b. s1\<lparr>sock_ok := b\<rparr>)
             else Returns s1
         | Throws e (attempt, s1) \<Rightarrow> Throws e s1
         | Undefined \<Rightarrow> Undefined))"

section \<open>Properties\<close>

subsection \<open>Storing and loading a length\<close>

lemma store_le_numeral:
  "store_le (numeral k) v = word_of_nat (v mod 256) # store_le (pred_numeral k) (v div 256)"
  using store_le.simps(2)[of "pred_numeral k" v] by (simp only: numeral_eq_Suc[of k, symmetric])

lemma length_store_le: "length (store_le n v) = n"
  by (induction n arbitrary: v) simp_all

lemma load_le_store_le: "load_le (store_le n v) = v mod 256 ^ n"
proof (induction n arbitrary: v)
  case 0
  show ?case by simp
next
  case (Suc n)
  have "unat (word_of_nat (v mod 256) :: byte) = v mod 256"
    by (simp add: unat_of_nat)
  then have "load_le (store_le (Suc n) v) = v mod 256 + 256 * ((v div 256) mod 256 ^ n)"
    by (simp add: Suc.IH)
  also have "\<dots> = v mod 256 ^ Suc n"
    by (simp add: mod_mult2_eq)
  finally show ?case .
qed

text \<open>Unfolding the model on concrete messages.\<close>

lemmas eval_defs =
  default_config_def new_out_message_def clear_def check_status_def fail_status_def
  load_length_def read_bytes_def add_length_def store_le_numeral attach_def read_tag_def
  memchr_def

lemmas in_defs =
  check_status_def fail_status_def read_tag_def Let_def load_length_def read_bytes_def

subsection \<open>The length prefix after an append\<close>

text \<open>
  Claim C1 asks that after every successful append the length prefix equals the size of
  the buffer. The operators add \<^verbatim>\<open>new_used\<close>, which already contains the old prefix, to
  the prefix (\<^verbatim>\<open>+=\<close>). On a new message with the default build switches, appending the
  string \<open>abc\<close> gives a buffer of 9 bytes (prefix, tag, three characters, terminator)
  whose prefix reads 13.
\<close>

theorem out_string_prefix_is_not_size:
  "out_string default_config (new_out_message default_config) [97, 98, 99] =
     Returns \<lparr>m_ok = True, m_buffer = [13, 0, 0, 0, 6, 97, 98, 99, 0]\<rparr>
   \<and> load_length default_config [13, 0, 0, 0, 6, 97, 98, 99, 0] 0 = Some 13
   \<and> length [13, 0, 0, 0, 6, 97, 98, 99, 0 :: byte] = 9"
  by (simp add: out_string_def eval_defs)

text \<open>
  The same for blobs: the first append to a new message happens to leave a right
  prefix, the second one does not (20 bytes, prefix 28).
\<close>

lemma out_blob_twice_prefix_is_not_size:
  "out_blob default_config (new_out_message default_config) [1, 2, 3] =
     Returns \<lparr>m_ok = True, m_buffer = [12, 0, 0, 0, 8, 3, 0, 0, 0, 1, 2, 3]\<rparr>
   \<and> out_blob default_config
         \<lparr>m_ok = True, m_buffer = [12, 0, 0, 0, 8, 3, 0, 0, 0, 1, 2, 3]\<rparr> [1, 2, 3] =
     Returns \<lparr>m_ok = True,
       m_buffer = [28, 0, 0, 0, 8, 3, 0, 0, 0, 1, 2, 3, 8, 3, 0, 0, 0, 1, 2, 3]\<rparr>"
  by (simp add: out_blob_def eval_defs)

subsection \<open>The overflow check of an append\<close>

text \<open>
  On a message whose prefix equals the size of its buffer, the check of the string
  operator is made on the size the buffer would get; the check of the blob operator is
  made on that size less the length field.
\<close>

lemma length_add_length:
  "msg_length_size cfg \<le> length buf \<Longrightarrow> length (add_length cfg buf v) = length buf"
  by (simp add: add_length_def Let_def length_store_le)

lemma out_string_checks_full_size:
  assumes "m_ok m"
    and "load_length cfg (m_buffer m) 0 = Some (length (m_buffer m))"
    and "delta = (if msg_use_tags cfg then 2 else 1)"
  shows "if get_max_size cfg < length (m_buffer m) + length s + delta
         then out_string cfg m s = Throws message_overflow_exception (m\<lparr>m_ok := False\<rparr>)
         else \<exists>m'. out_string cfg m s = Returns m'
                \<and> length (m_buffer m') = length (m_buffer m) + length s + delta"
proof -
  from assms(2) have "msg_length_size cfg \<le> length (m_buffer m)"
    by (auto simp: load_length_def read_bytes_def split: if_splits)
  with assms show ?thesis
    by (auto simp: out_string_def check_status_def fail_status_def Let_def length_add_length)
qed

lemma out_blob_checks_without_length_field:
  assumes "m_ok m"
    and "load_length cfg (m_buffer m) 0 = Some (length (m_buffer m))"
    and "delta = (if msg_use_tags cfg then 1 else 0)"
  shows "if get_max_size cfg < length (m_buffer m) + length arg + delta
         then out_blob cfg m arg = Throws message_overflow_exception (m\<lparr>m_ok := False\<rparr>)
         else \<exists>m'. out_blob cfg m arg = Returns m'
                \<and> length (m_buffer m') =
                    length (m_buffer m) + length arg + delta + msg_length_size cfg"
proof -
  from assms(2) have "msg_length_size cfg \<le> length (m_buffer m)"
    by (auto simp: load_length_def read_bytes_def split: if_splits)
  with assms show ?thesis
    by (auto simp: out_blob_def check_status_def fail_status_def Let_def length_add_length
        length_store_le)
qed

text \<open>
  Claim C4 asks that an append whose resulting size, counting every byte it adds, would
  exceed \<^verbatim>\<open>MAX\<close> throws message-overflow. The blob operator leaves the length field out
  of \<^verbatim>\<open>new_used\<close>: with the default build switches, a blob of 65531 bytes appended to a
  new message passes the check and leaves a buffer of 65540 bytes, above the limit of
  65536.
\<close>

theorem out_blob_exceeds_max_size:
  "out_blob default_config (new_out_message default_config) (replicate 65531 0) =
     Returns \<lparr>m_ok = True, m_buffer = [4, 0, 1, 0, 8, 251, 255, 0, 0] @ replicate 65531 0\<rparr>
   \<and> length ([4, 0, 1, 0, 8, 251, 255, 0, 0] @ replicate 65531 (0 :: byte)) = 65540
   \<and> get_max_size default_config = 65536"
  by (simp add: out_blob_def eval_defs)

subsection \<open>The fail flag\<close>

text \<open>
  Claim C5: on a cursor whose fail flag is set (\<open>m_ok\<close> false), each of the four
  operators throws bad-message and changes neither the cursor nor the destination, so
  the flag stays set; \<open>clear\<close> on an out_message resets it.
\<close>

theorem fail_flag_latched:
  assumes "\<not> m_ok mo" and "\<not> m_ok mi"
  shows "out_string cfg mo s = Throws bad_message_exception mo
       \<and> out_blob cfg mo b = Throws bad_message_exception mo
       \<and> in_string cfg mi arg = (Throws bad_message_exception mi, arg)
       \<and> in_blob cfg mi blob = (Throws bad_message_exception mi, blob)
       \<and> m_ok (clear cfg mo)"
  using assms
  by (simp add: out_string_def out_blob_def in_string_def in_blob_def check_status_def clear_def)

theorem fail_flag_latched_witness:
  "\<not> m_ok \<lparr>m_ok = False, m_buffer = [4, 0, 0, 0]\<rparr>
   \<and> \<not> m_ok \<lparr>m_ok = False, m_buffer = [4, 0, 0, 0], m_offset = 4\<rparr>
   \<and> out_string default_config \<lparr>m_ok = False, m_buffer = [4, 0, 0, 0]\<rparr> [97] =
       Throws bad_message_exception \<lparr>m_ok = False, m_buffer = [4, 0, 0, 0]\<rparr>
   \<and> out_blob default_config \<lparr>m_ok = False, m_buffer = [4, 0, 0, 0]\<rparr> [1] =
       Throws bad_message_exception \<lparr>m_ok = False, m_buffer = [4, 0, 0, 0]\<rparr>
   \<and> in_string default_config \<lparr>m_ok = False, m_buffer = [4, 0, 0, 0], m_offset = 4\<rparr> [7] =
       (Throws bad_message_exception \<lparr>m_ok = False, m_buffer = [4, 0, 0, 0], m_offset = 4\<rparr>, [7])
   \<and> in_blob default_config \<lparr>m_ok = False, m_buffer = [4, 0, 0, 0], m_offset = 4\<rparr> [7] =
       (Throws bad_message_exception \<lparr>m_ok = False, m_buffer = [4, 0, 0, 0], m_offset = 4\<rparr>, [7])
   \<and> m_ok (clear default_config \<lparr>m_ok = False, m_buffer = [4, 0, 0, 0]\<rparr>)"
  using fail_flag_latched
    [where mo = "\<lparr>m_ok = False, m_buffer = [4, 0, 0, 0]\<rparr>"
       and mi = "\<lparr>m_ok = False, m_buffer = [4, 0, 0, 0], m_offset = 4\<rparr>"
       and cfg = default_config and s = "[97]" and b = "[1]" and arg = "[7]" and blob = "[7]"]
  by simp

subsection \<open>Extracting a blob\<close>




subsection \<open>A tag that does not match\<close>

text \<open>
  Claim C7, as stated, fails: the length check of the extractors comes before the tag
  check. The next element is a string of 4 bytes (tag 6), a blob needs at least 5:
  extracting a blob throws message-too-short, not type-mismatch.
\<close>

theorem type_mismatch_counterexample:
  "msg_use_tags default_config
   \<and> m_buffer (attach default_config [8, 0, 0, 0, 6, 97, 98, 0])
       ! m_offset (attach default_config [8, 0, 0, 0, 6, 97, 98, 0]) \<noteq> tag_byte tag_blob
   \<and> in_blob default_config (attach default_config [8, 0, 0, 0, 6, 97, 98, 0]) [7] =
       (Throws message_too_short_exception
          \<lparr>m_ok = False, m_buffer = [8, 0, 0, 0, 6, 97, 98, 0], m_offset = 4\<rparr>, [7])
   \<and> thrown (fst (in_blob default_config (attach default_config [8, 0, 0, 0, 6, 97, 98, 0]) [7]))
       \<noteq> Some type_mismach_exception"
  by (simp add: in_blob_def eval_defs)

text \<open>
  Claim C7, amended: in tagged mode, on a complete message with at least the fixed part
  of the requested element left (2 bytes for a string, 1 + \<open>L\<close> for a blob), an
  extraction whose next tag byte differs from the requested tag throws type-mismatch;
  the cursor it leaves differs from the one before only in the fail flag, so the read
  offset is unchanged.
\<close>

theorem type_mismatch_keeps_offset:
  assumes "msg_use_tags cfg" and "m_ok m"
    and "load_length cfg (m_buffer m) 0 = Some msize"
    and "msize \<le> length (m_buffer m)"
  shows "(m_offset m + 2 \<le> msize \<and> m_buffer m ! m_offset m \<noteq> tag_byte tag_str \<longrightarrow>
            in_string cfg m arg = (Throws type_mismach_exception (m\<lparr>m_ok := False\<rparr>), []))
       \<and> (m_offset m + 1 + msg_length_size cfg \<le> msize
            \<and> m_buffer m ! m_offset m \<noteq> tag_byte tag_blob \<longrightarrow>
            in_blob cfg m blob = (Throws type_mismach_exception (m\<lparr>m_ok := False\<rparr>), blob))"
  using assms by (auto simp: in_blob_def in_string_def in_defs split: if_splits)

theorem type_mismatch_keeps_offset_witness:
  "msg_use_tags default_config
   \<and> m_ok (attach default_config [9, 0, 0, 0, 0, 1, 0, 0, 0])
   \<and> load_length default_config [9, 0, 0, 0, 0, 1, 0, 0, 0] 0 = Some 9
   \<and> 9 \<le> length [9, 0, 0, 0, 0, 1, 0, 0, 0 :: byte]
   \<and> m_offset (attach default_config [9, 0, 0, 0, 0, 1, 0, 0, 0]) + 1
        + msg_length_size default_config \<le> 9
   \<and> [9, 0, 0, 0, 0, 1, 0, 0, 0] ! 4 \<noteq> tag_byte tag_str
   \<and> [9, 0, 0, 0, 0, 1, 0, 0, 0] ! 4 \<noteq> tag_byte tag_blob
   \<and> in_string default_config (attach default_config [9, 0, 0, 0, 0, 1, 0, 0, 0]) [7] =
       (Throws type_mismach_exception
          \<lparr>m_ok = False, m_buffer = [9, 0, 0, 0, 0, 1, 0, 0, 0], m_offset = 4\<rparr>, [])
   \<and> in_blob default_config (attach default_config [9, 0, 0, 0, 0, 1, 0, 0, 0]) [7] =
       (Throws type_mismach_exception
          \<lparr>m_ok = False, m_buffer = [9, 0, 0, 0, 0, 1, 0, 0, 0], m_offset = 4\<rparr>, [7])"
  using type_mismatch_keeps_offset
    [where m = "attach default_config [9, 0, 0, 0, 0, 1, 0, 0, 0]"
       and cfg = default_config and msize = 9 and arg = "[7]" and blob = "[7]"]
  by (simp add: eval_defs)

subsection \<open>An empty blob\<close>

text \<open>
  Claim C10: when the next element is a blob whose length field is 0, the extraction
  returns with the offset past the tag and the length field and the destination vector
  as it was before; the string extractor, in contrast, gives the same result whatever
  the destination held before (it clears it first).
\<close>

theorem empty_blob_keeps_destination:
  assumes "m_ok m"
    and "load_length cfg (m_buffer m) 0 = Some msize"
    and "t = (if msg_use_tags cfg then 1 else 0)"
    and "m_offset m + t + msg_length_size cfg \<le> msize"
    and "msg_use_tags cfg \<longrightarrow> m_buffer m ! m_offset m = tag_byte tag_blob"
    and "load_length cfg (m_buffer m) (m_offset m + t) = Some 0"
  shows "in_blob cfg m blob = (Returns (m\<lparr>m_offset := m_offset m + t + msg_length_size cfg\<rparr>), blob)
       \<and> in_string cfg m arg = in_string cfg m []"
  using assms by (auto simp: in_blob_def in_string_def in_defs split: if_splits)

theorem empty_blob_keeps_destination_witness:
  "m_ok (attach default_config [9, 0, 0, 0, 8, 0, 0, 0, 0])
   \<and> load_length default_config [9, 0, 0, 0, 8, 0, 0, 0, 0] 0 = Some 9
   \<and> msg_use_tags default_config
   \<and> m_offset (attach default_config [9, 0, 0, 0, 8, 0, 0, 0, 0]) + 1
        + msg_length_size default_config \<le> 9
   \<and> [9, 0, 0, 0, 8, 0, 0, 0, 0] ! 4 = tag_byte tag_blob
   \<and> load_length default_config [9, 0, 0, 0, 8, 0, 0, 0, 0] 5 = Some 0
   \<and> in_blob default_config (attach default_config [9, 0, 0, 0, 8, 0, 0, 0, 0]) [1, 2] =
       (Returns \<lparr>m_ok = True, m_buffer = [9, 0, 0, 0, 8, 0, 0, 0, 0], m_offset = 9\<rparr>, [1, 2])
   \<and> in_string default_config (attach default_config [9, 0, 0, 0, 8, 0, 0, 0, 0]) [1, 2] =
       (Throws type_mismach_exception
          \<lparr>m_ok = False, m_buffer = [9, 0, 0, 0, 8, 0, 0, 0, 0], m_offset = 4\<rparr>, [])"
  using empty_blob_keeps_destination
    [where m = "attach default_config [9, 0, 0, 0, 8, 0, 0, 0, 0]"
       and cfg = default_config and msize = 9 and t = 1 and blob = "[1, 2]" and arg = "[1, 2]"]
  by (simp add: in_string_def eval_defs)

subsection \<open>Facts about \<open>memchr\<close> and the offset\<close>









subsection \<open>A string without terminator\<close>



subsection \<open>A string appended and extracted\<close>

lemma less_256_power: "n < (256::nat) ^ n"
proof -
  have "n < 2 ^ n" by (rule less_exp)
  also have "(2::nat) ^ n \<le> 256 ^ n" by (rule power_mono) simp_all
  finally show ?thesis .
qed

lemma load_length_store_le:
  "load_length cfg (store_le (msg_length_size cfg) v @ rest) 0 = Some (v mod 256 ^ msg_length_size cfg)"
  by (simp add: load_length_def read_bytes_def length_store_le load_le_store_le)

lemma out_string_Returns:
  assumes "m_ok m"
    and "load_length cfg (m_buffer m) 0 = Some used"
    and "used + length s + delta \<le> get_max_size cfg"
    and "delta = (if msg_use_tags cfg then 2 else 1)"
  shows "out_string cfg m s =
     Returns (m\<lparr>m_buffer :=
       store_le (msg_length_size cfg)
         ((used + (used + length s + delta) mod 256 ^ msg_length_size cfg)
          mod 256 ^ msg_length_size cfg)
       @ drop (msg_length_size cfg) (m_buffer m)
       @ (if msg_use_tags cfg then [tag_byte tag_str] else []) @ s @ [0]\<rparr>)"
  using assms
  by (auto simp: out_string_def check_status_def load_length_def read_bytes_def add_length_def
      Let_def split: if_splits)

lemma out_string_new_out_message:
  assumes fits: "msg_length_size cfg + length s + delta \<le> get_max_size cfg"
    and delta: "delta = (if msg_use_tags cfg then 2 else 1)"
    and nowrap: "2 * msg_length_size cfg + length s + delta < 256 ^ msg_length_size cfg"
  shows "out_string cfg (new_out_message cfg) s =
     Returns \<lparr>m_ok = True,
       m_buffer = store_le (msg_length_size cfg) (2 * msg_length_size cfg + length s + delta)
                  @ (if msg_use_tags cfg then [tag_byte tag_str] else []) @ s @ [0]\<rparr>"
proof -
  let ?L = "msg_length_size cfg"
  let ?new = "new_out_message cfg"
  have new: "?new = \<lparr>m_ok = True, m_buffer = store_le ?L ?L\<rparr>"
    by (simp add: new_out_message_def clear_def)
  have used: "load_length cfg (m_buffer ?new) 0 = Some ?L"
    using load_length_store_le[of cfg ?L "[]"] less_256_power[of ?L] by (simp add: new)
  have step: "out_string cfg ?new s =
     Returns (?new\<lparr>m_buffer :=
       store_le ?L ((?L + (?L + length s + delta) mod 256 ^ ?L) mod 256 ^ ?L)
       @ drop ?L (m_buffer ?new)
       @ (if msg_use_tags cfg then [tag_byte tag_str] else []) @ s @ [0]\<rparr>)"
    using used fits delta by (intro out_string_Returns) (simp_all add: new)
  have val: "(?L + (?L + length s + delta) mod 256 ^ ?L) mod 256 ^ ?L
             = 2 * ?L + length s + delta"
    using nowrap by simp
  show ?thesis
    unfolding step val by (simp add: new length_store_le)
qed

lemma in_string_attach:
  assumes nz: "0 \<notin> set s"
    and t: "t = (if msg_use_tags cfg then 1 else 0)"
    and v: "msg_length_size cfg + t + length s + 1 \<le> v" "v < 256 ^ msg_length_size cfg"
    and buf: "buf = store_le (msg_length_size cfg) v
                    @ (if msg_use_tags cfg then [tag_byte tag_str] else []) @ s @ [0]"
  shows "in_string cfg (attach cfg buf) arg =
     (Returns \<lparr>m_ok = True, m_buffer = buf,
        m_offset = msg_length_size cfg + t + length s + 1\<rparr>, s)"
proof -
  let ?L = "msg_length_size cfg"
  have size: "load_length cfg buf 0 = Some v"
    unfolding buf using load_length_store_le[of cfg v] v(2) by simp
  have region: "take (v - (?L + t)) (drop (?L + t) buf) = s @ [0]"
    using v(1) by (simp add: buf t length_store_le)
  have tw: "takeWhile (\<lambda>b. b \<noteq> 0) (s @ [0]) = s"
    using nz by (induction s) auto
  have found: "memchr buf (?L + t) (v - (?L + t)) = Found (length s)"
    unfolding memchr_def Let_def region tw by simp
  have str: "take (length s) (drop (?L + t) buf) = s"
    by (simp add: buf t length_store_le)
  have tagged: "msg_use_tags cfg \<Longrightarrow> buf ! ?L = tag_byte tag_str \<and> ?L < length buf"
    by (simp add: buf nth_append length_store_le)
  show ?thesis
  proof (cases "msg_use_tags cfg")
    case True
    with tagged found str size v(1) t show ?thesis
      by (simp add: in_string_def attach_def check_status_def read_tag_def)
  next
    case False
    with found str size v(1) t show ?thesis
      by (simp add: in_string_def attach_def check_status_def read_tag_def)
  qed
qed

text \<open>
  Claim C3, as stated for every string, fails: a \<^verbatim>\<open>std::string_view\<close> may hold a zero
  byte, and the extractor stops at the first one. The three bytes \<open>a\<close>, 0, \<open>b\<close> come
  back as the single byte \<open>a\<close>.
\<close>

theorem string_round_trip_counterexample:
  "out_string default_config (new_out_message default_config) [97, 0, 98] =
     Returns \<lparr>m_ok = True, m_buffer = [13, 0, 0, 0, 6, 97, 0, 98, 0]\<rparr>
   \<and> in_string default_config (attach default_config [13, 0, 0, 0, 6, 97, 0, 98, 0]) [] =
       (Returns \<lparr>m_ok = True, m_buffer = [13, 0, 0, 0, 6, 97, 0, 98, 0], m_offset = 7\<rparr>, [97])
   \<and> snd (in_string default_config (attach default_config [13, 0, 0, 0, 6, 97, 0, 98, 0]) [])
       \<noteq> [97, 0, 98]"
  by (simp add: out_string_def in_string_def eval_defs)

text \<open>
  Claim C3, amended: for every string \<open>s\<close> without a zero byte that fits a new message,
  appending \<open>s\<close> to a new out_message gives a buffer made of the length prefix, the tag
  (in tagged mode), the bytes of \<open>s\<close> and one final zero byte, and extracting a string
  from an in_message attached to that buffer returns exactly \<open>s\<close>, with the offset at
  the end of the buffer. The statement is made for messages whose length prefix does not
  wrap at the width of the length type (fourth hypothesis), and says nothing on the
  value of the prefix.
\<close>

theorem string_round_trip:
  assumes "0 \<notin> set s"
    and "delta = (if msg_use_tags cfg then 2 else 1)"
    and "msg_length_size cfg + length s + delta \<le> get_max_size cfg"
    and "2 * msg_length_size cfg + length s + delta < 256 ^ msg_length_size cfg"
    and "tag = (if msg_use_tags cfg then [tag_byte tag_str] else [])"
  shows "\<exists>prefix. length prefix = msg_length_size cfg
     \<and> out_string cfg (new_out_message cfg) s =
         Returns \<lparr>m_ok = True, m_buffer = prefix @ tag @ s @ [0]\<rparr>
     \<and> in_string cfg (attach cfg (prefix @ tag @ s @ [0])) arg =
         (Returns \<lparr>m_ok = True, m_buffer = prefix @ tag @ s @ [0],
            m_offset = msg_length_size cfg + delta + length s\<rparr>, s)"
proof -
  let ?L = "msg_length_size cfg"
  let ?prefix = "store_le ?L (2 * ?L + length s + delta)"
  let ?t = "if msg_use_tags cfg then 1 else 0 :: nat"
  have out: "out_string cfg (new_out_message cfg) s =
      Returns \<lparr>m_ok = True, m_buffer = ?prefix @ tag @ s @ [0]\<rparr>"
    using assms by (simp only: out_string_new_out_message)
  have "in_string cfg (attach cfg (?prefix @ tag @ s @ [0])) arg =
      (Returns \<lparr>m_ok = True, m_buffer = ?prefix @ tag @ s @ [0],
         m_offset = ?L + ?t + length s + 1\<rparr>, s)"
    using assms by (intro in_string_attach[where v = "2 * ?L + length s + delta"]) simp_all
  moreover have "?L + ?t + length s + 1 = ?L + delta + length s"
    using assms(2) by simp
  ultimately have "in_string cfg (attach cfg (?prefix @ tag @ s @ [0])) arg =
      (Returns \<lparr>m_ok = True, m_buffer = ?prefix @ tag @ s @ [0],
         m_offset = ?L + delta + length s\<rparr>, s)"
    by simp
  with out length_store_le[of ?L "2 * ?L + length s + delta"] show ?thesis
    by blast
qed

theorem string_round_trip_witness:
  "0 \<notin> set [97, 98, 99 :: byte]
   \<and> msg_use_tags default_config
   \<and> msg_length_size default_config + length [97, 98, 99 :: byte] + 2
       \<le> get_max_size default_config
   \<and> 2 * msg_length_size default_config + length [97, 98, 99 :: byte] + 2
       < (256 :: nat) ^ msg_length_size default_config
   \<and> (\<exists>prefix. length prefix = 4
        \<and> out_string default_config (new_out_message default_config) [97, 98, 99] =
            Returns \<lparr>m_ok = True, m_buffer = prefix @ [6] @ [97, 98, 99] @ [0]\<rparr>
        \<and> in_string default_config (attach default_config (prefix @ [6] @ [97, 98, 99] @ [0])) [7] =
            (Returns \<lparr>m_ok = True, m_buffer = prefix @ [6] @ [97, 98, 99] @ [0], m_offset = 9\<rparr>,
             [97, 98, 99]))"
  using string_round_trip
    [where s = "[97, 98, 99]" and cfg = default_config and delta = 2 and tag = "[6]" and arg = "[7]"]
  by (simp add: default_config_def)

subsection \<open>The read offset\<close>






subsection \<open>Connecting with retries\<close>

lemma connect_loop_retry:
  assumes "\<forall>i<k. env (connect_calls s + i) \<in> {Some EAGAIN, Some ECONNREFUSED, Some EINPROGRESS}"
    and "attempt + k \<le> max_attempts_count"
  shows "connect_loop env attempt s =
     connect_loop env (attempt + k)
       (s\<lparr>connect_calls := connect_calls s + k, slept_seconds := slept_seconds s + k\<rparr>)"
  using assms
proof (induction k arbitrary: attempt s)
  case 0
  show ?case by simp
next
  case (Suc k)
  let ?s1 = "s\<lparr>connect_calls := connect_calls s + 1, slept_seconds := slept_seconds s + 1\<rparr>"
  from Suc.prems(1) have "env (connect_calls s + 0) \<in> {Some EAGAIN, Some ECONNREFUSED, Some EINPROGRESS}"
    by blast
  then have first: "env (connect_calls s) \<in> {Some EAGAIN, Some ECONNREFUSED, Some EINPROGRESS}"
    by simp
  have step: "connect_loop env attempt s = connect_loop env (attempt + 1) ?s1"
    using first Suc.prems(2) by (subst connect_loop.simps) (auto simp: Let_def)
  have rest: "\<forall>i<k. env (connect_calls ?s1 + i) \<in> {Some EAGAIN, Some ECONNREFUSED, Some EINPROGRESS}"
  proof (intro allI impI)
    fix i assume "i < k"
    then have "Suc i < Suc k" by simp
    with Suc.prems(1) have "env (connect_calls s + Suc i) \<in> {Some EAGAIN, Some ECONNREFUSED, Some EINPROGRESS}"
      by blast
    then show "env (connect_calls ?s1 + i) \<in> {Some EAGAIN, Some ECONNREFUSED, Some EINPROGRESS}"
      by simp
  qed
  have "connect_loop env (attempt + 1) ?s1 =
      connect_loop env (attempt + 1 + k)
        (?s1\<lparr>connect_calls := connect_calls ?s1 + k, slept_seconds := slept_seconds ?s1 + k\<rparr>)"
    using rest Suc.prems(2) by (intro Suc.IH) simp_all
  with step show ?case by simp
qed

lemma connect_loop_connected:
  assumes "\<forall>i<k. env (connect_calls s + i) \<in> {Some EAGAIN, Some ECONNREFUSED, Some EINPROGRESS}"
    and "attempt + k < max_attempts_count"
    and "env (connect_calls s + k) = None"
  shows "connect_loop env attempt s =
     Returns (attempt + k,
       s\<lparr>connect_calls := connect_calls s + k + 1, slept_seconds := slept_seconds s + k\<rparr>)"
proof -
  have "connect_loop env attempt s =
     connect_loop env (attempt + k)
       (s\<lparr>connect_calls := connect_calls s + k, slept_seconds := slept_seconds s + k\<rparr>)"
    using assms(1,2) by (intro connect_loop_retry) simp_all
  also have "\<dots> = Returns (attempt + k,
       s\<lparr>connect_calls := connect_calls s + k + 1, slept_seconds := slept_seconds s + k\<rparr>)"
    using assms(2,3) by (subst connect_loop.simps) (simp add: Let_def)
  finally show ?thesis .
qed

lemma connect_loop_other_error:
  assumes "\<forall>i<k. env (connect_calls s + i) \<in> {Some EAGAIN, Some ECONNREFUSED, Some EINPROGRESS}"
    and "attempt + k < max_attempts_count"
    and "env (connect_calls s + k) = Some e"
    and "e \<notin> {EAGAIN, ECONNREFUSED, EINPROGRESS}"
  shows "connect_loop env attempt s =
     Throws active_socket_prepare_exception (attempt + k,
       s\<lparr>sock_ok := False, connect_calls := connect_calls s + k + 1,
         slept_seconds := slept_seconds s + k\<rparr>)"
proof -
  have "connect_loop env attempt s =
     connect_loop env (attempt + k)
       (s\<lparr>connect_calls := connect_calls s + k, slept_seconds := slept_seconds s + k\<rparr>)"
    using assms(1,2) by (intro connect_loop_retry) simp_all
  also have "\<dots> = Throws active_socket_prepare_exception (attempt + k,
       s\<lparr>sock_ok := False, connect_calls := connect_calls s + k + 1,
         slept_seconds := slept_seconds s + k\<rparr>)"
    using assms(2,3,4) by (subst connect_loop.simps) (simp add: Let_def fail_status_def)
  finally show ?thesis .
qed

lemma connect_loop_exhausted:
  assumes "\<forall>i<k. env (connect_calls s + i) \<in> {Some EAGAIN, Some ECONNREFUSED, Some EINPROGRESS}"
    and "attempt + k = max_attempts_count"
  shows "connect_loop env attempt s =
     Returns (max_attempts_count,
       s\<lparr>connect_calls := connect_calls s + k, slept_seconds := slept_seconds s + k\<rparr>)"
proof -
  have "connect_loop env attempt s =
     connect_loop env (attempt + k)
       (s\<lparr>connect_calls := connect_calls s + k, slept_seconds := slept_seconds s + k\<rparr>)"
    using assms by (intro connect_loop_retry) simp_all
  also have "\<dots> = Returns (max_attempts_count,
       s\<lparr>connect_calls := connect_calls s + k, slept_seconds := slept_seconds s + k\<rparr>)"
    using assms(2) by (subst connect_loop.simps) simp
  finally show ?thesis .
qed

lemma connect_loop_bound:
  "attempt \<le> max_attempts_count \<Longrightarrow>
   \<exists>a s'. (connect_loop env attempt s = Returns (a, s')
            \<or> connect_loop env attempt s = Throws active_socket_prepare_exception (a, s'))
          \<and> connect_calls s' + attempt \<le> connect_calls s + max_attempts_count"
proof (induction env attempt s rule: connect_loop.induct)
  case (1 env attempt s)
  let ?s1 = "s\<lparr>connect_calls := connect_calls s + 1\<rparr>"
  show ?case
  proof (cases "attempt < max_attempts_count")
    case False
    with "1.prems" show ?thesis
      by (subst (1 2) connect_loop.simps) simp
  next
    case less: True
    show ?thesis
    proof (cases "env (connect_calls s)")
      case None
      with less show ?thesis
        by (subst (1 2) connect_loop.simps) (simp add: Let_def)
    next
      case (Some err_code)
      show ?thesis
      proof (cases "err_code = EAGAIN \<or> err_code = ECONNREFUSED \<or> err_code = EINPROGRESS")
        case False
        with less Some show ?thesis
          by (subst (1 2) connect_loop.simps) (simp add: Let_def fail_status_def)
      next
        case True
        let ?s2 = "?s1\<lparr>slept_seconds := slept_seconds ?s1 + 1\<rparr>"
        from less have "attempt + 1 \<le> max_attempts_count" by simp
        from "1.IH"[OF less refl Some True this]
        obtain a s' where
          r: "connect_loop env (attempt + 1) ?s2 = Returns (a, s')
              \<or> connect_loop env (attempt + 1) ?s2 = Throws active_socket_prepare_exception (a, s')"
          and b: "connect_calls s' + (attempt + 1) \<le> connect_calls ?s2 + max_attempts_count"
          by blast
        have unfold: "connect_loop env attempt s = connect_loop env (attempt + 1) ?s2"
          using less Some True by (subst connect_loop.simps) (simp add: Let_def)
        from r b show ?thesis
          unfolding unfold by auto
      qed
    qed
  qed
qed

lemma connect_proc_bound:
  "\<exists>s'. (connect_proc env non_blocking s = Returns s'
          \<or> connect_proc env non_blocking s = Throws active_socket_prepare_exception s')
        \<and> connect_calls s' \<le> connect_calls s + 10"
proof (cases "sock_valid s")
  case False
  then show ?thesis
    by (simp add: connect_proc_def fail_status_def)
next
  case True
  obtain a s' where
    r: "connect_loop env 0 s = Returns (a, s')
        \<or> connect_loop env 0 s = Throws active_socket_prepare_exception (a, s')"
    and b: "connect_calls s' + 0 \<le> connect_calls s + max_attempts_count"
    using connect_loop_bound[of 0 env s] by auto
  from r b True show ?thesis
    by (auto simp: connect_proc_def fail_status_def max_attempts_count_def)
qed

text \<open>
  Claim C9: \<open>connect_proc\<close> on an allocated socket calls \<^verbatim>\<open>connect\<close> again only after
  a failure with \<^verbatim>\<open>EAGAIN\<close>, \<^verbatim>\<open>ECONNREFUSED\<close> or \<^verbatim>\<open>EINPROGRESS\<close>, and sleeps one second
  after each such failure. With \<open>k < 10\<close> such failures followed by a success it has
  made \<open>k + 1\<close> calls and slept \<open>k\<close> seconds (and returns, unless the switch to
  non-blocking mode fails); followed by any other error it throws
  active-socket-prepare after \<open>k + 1\<close> calls; after 10 such failures it throws
  active-socket-prepare and has made exactly 10 calls. Whatever the outcomes of
  \<^verbatim>\<open>connect\<close> are, it returns or throws active-socket-prepare after at most 10 calls. On
  a socket that could not be allocated it throws at once.
\<close>

theorem connect_proc_retries:
  "(\<not> sock_valid s \<longrightarrow>
      connect_proc env non_blocking s =
        Throws active_socket_prepare_exception (s\<lparr>sock_ok := False\<rparr>))
   \<and> (\<forall>k<10. sock_valid s
        \<and> (\<forall>i<k. env (connect_calls s + i) \<in> {Some EAGAIN, Some ECONNREFUSED, Some EINPROGRESS})
        \<and> env (connect_calls s + k) = None \<longrightarrow>
      connect_proc env non_blocking s =
        (if non_blocking
         then Returns (s\<lparr>connect_calls := connect_calls s + k + 1,
                         slept_seconds := slept_seconds s + k\<rparr>)
         else Throws active_socket_prepare_exception
                (s\<lparr>sock_ok := False, connect_calls := connect_calls s + k + 1,
                   slept_seconds := slept_seconds s + k\<rparr>)))
   \<and> (\<forall>k<10. \<forall>e. sock_valid s
        \<and> (\<forall>i<k. env (connect_calls s + i) \<in> {Some EAGAIN, Some ECONNREFUSED, Some EINPROGRESS})
        \<and> env (connect_calls s + k) = Some e
        \<and> e \<notin> {EAGAIN, ECONNREFUSED, EINPROGRESS} \<longrightarrow>
      connect_proc env non_blocking s =
        Throws active_socket_prepare_exception
          (s\<lparr>sock_ok := False, connect_calls := connect_calls s + k + 1,
             slept_seconds := slept_seconds s + k\<rparr>))
   \<and> (sock_valid s
        \<and> (\<forall>i<10. env (connect_calls s + i) \<in> {Some EAGAIN, Some ECONNREFUSED, Some EINPROGRESS})
        \<longrightarrow>
      connect_proc env non_blocking s =
        Throws active_socket_prepare_exception
          (s\<lparr>sock_ok := False, connect_calls := connect_calls s + 10,
             slept_seconds := slept_seconds s + 10\<rparr>))
   \<and> (\<exists>s'. (connect_proc env non_blocking s = Returns s'
            \<or> connect_proc env non_blocking s = Throws active_socket_prepare_exception s')
          \<and> connect_calls s' \<le> connect_calls s + 10)"
proof (intro conjI allI impI)
  assume "\<not> sock_valid s"
  then show "connect_proc env non_blocking s =
      Throws active_socket_prepare_exception (s\<lparr>sock_ok := False\<rparr>)"
    by (simp add: connect_proc_def fail_status_def)
next
  fix k :: nat
  assume k: "k < 10"
    and h: "sock_valid s
      \<and> (\<forall>i<k. env (connect_calls s + i) \<in> {Some EAGAIN, Some ECONNREFUSED, Some EINPROGRESS})
      \<and> env (connect_calls s + k) = None"
  from h have valid: "sock_valid s"
    and retried: "\<forall>i<k. env (connect_calls s + i) \<in> {Some EAGAIN, Some ECONNREFUSED, Some EINPROGRESS}"
    and last: "env (connect_calls s + k) = None"
    by blast+
  from k have "0 + k < max_attempts_count"
    by (simp add: max_attempts_count_def)
  note loop = connect_loop_connected[OF retried this last]
  from k valid show "connect_proc env non_blocking s =
      (if non_blocking
       then Returns (s\<lparr>connect_calls := connect_calls s + k + 1,
                       slept_seconds := slept_seconds s + k\<rparr>)
       else Throws active_socket_prepare_exception
              (s\<lparr>sock_ok := False, connect_calls := connect_calls s + k + 1,
                 slept_seconds := slept_seconds s + k\<rparr>))"
    by (simp add: connect_proc_def loop fail_status_def max_attempts_count_def)
next
  fix k :: nat and e
  assume k: "k < 10"
    and h: "sock_valid s
      \<and> (\<forall>i<k. env (connect_calls s + i) \<in> {Some EAGAIN, Some ECONNREFUSED, Some EINPROGRESS})
      \<and> env (connect_calls s + k) = Some e
      \<and> e \<notin> {EAGAIN, ECONNREFUSED, EINPROGRESS}"
  from h have valid: "sock_valid s"
    and retried: "\<forall>i<k. env (connect_calls s + i) \<in> {Some EAGAIN, Some ECONNREFUSED, Some EINPROGRESS}"
    and last: "env (connect_calls s + k) = Some e"
    and other: "e \<notin> {EAGAIN, ECONNREFUSED, EINPROGRESS}"
    by blast+
  from k have "0 + k < max_attempts_count"
    by (simp add: max_attempts_count_def)
  note loop = connect_loop_other_error[OF retried this last other]
  from valid show "connect_proc env non_blocking s =
      Throws active_socket_prepare_exception
        (s\<lparr>sock_ok := False, connect_calls := connect_calls s + k + 1,
           slept_seconds := slept_seconds s + k\<rparr>)"
    by (simp add: connect_proc_def loop)
next
  assume h: "sock_valid s
      \<and> (\<forall>i<10. env (connect_calls s + i) \<in> {Some EAGAIN, Some ECONNREFUSED, Some EINPROGRESS})"
  from h have valid: "sock_valid s"
    and retried: "\<forall>i<10. env (connect_calls s + i) \<in> {Some EAGAIN, Some ECONNREFUSED, Some EINPROGRESS}"
    by blast+
  have "0 + 10 = max_attempts_count"
    by (simp add: max_attempts_count_def)
  note loop = connect_loop_exhausted[OF retried this]
  from valid show "connect_proc env non_blocking s =
      Throws active_socket_prepare_exception
        (s\<lparr>sock_ok := False, connect_calls := connect_calls s + 10,
           slept_seconds := slept_seconds s + 10\<rparr>)"
    by (simp add: connect_proc_def loop fail_status_def)
next
  show "\<exists>s'. (connect_proc env non_blocking s = Returns s'
            \<or> connect_proc env non_blocking s = Throws active_socket_prepare_exception s')
          \<and> connect_calls s' \<le> connect_calls s + 10"
    by (rule connect_proc_bound)
qed

theorem connect_proc_retries_witness:
  "connect_proc (\<lambda>i. if i < 2 then Some ECONNREFUSED else None) True
     \<lparr>sock_ok = True, sock_valid = True, connect_calls = 0, slept_seconds = 0\<rparr> =
     Returns \<lparr>sock_ok = True, sock_valid = True, connect_calls = 3, slept_seconds = 2\<rparr>
   \<and> connect_proc (\<lambda>i. if i < 1 then Some EAGAIN else Some (Other_errno 13)) True
       \<lparr>sock_ok = True, sock_valid = True, connect_calls = 0, slept_seconds = 0\<rparr> =
       Throws active_socket_prepare_exception
         \<lparr>sock_ok = False, sock_valid = True, connect_calls = 2, slept_seconds = 1\<rparr>
   \<and> connect_proc (\<lambda>i. Some EINPROGRESS) True
       \<lparr>sock_ok = True, sock_valid = True, connect_calls = 0, slept_seconds = 0\<rparr> =
       Throws active_socket_prepare_exception
         \<lparr>sock_ok = False, sock_valid = True, connect_calls = 10, slept_seconds = 10\<rparr>
   \<and> connect_proc (\<lambda>i. None) True
       \<lparr>sock_ok = True, sock_valid = False, connect_calls = 0, slept_seconds = 0\<rparr> =
       Throws active_socket_prepare_exception
         \<lparr>sock_ok = False, sock_valid = False, connect_calls = 0, slept_seconds = 0\<rparr>"
proof -
  let ?s = "\<lparr>sock_ok = True, sock_valid = True, connect_calls = 0, slept_seconds = 0\<rparr>"
  let ?bad = "\<lparr>sock_ok = True, sock_valid = False, connect_calls = 0, slept_seconds = 0\<rparr>"
  note connected = connect_proc_retries
    [where env = "\<lambda>i. if i < 2 then Some ECONNREFUSED else None" and s = ?s
       and non_blocking = True, THEN conjunct2, THEN conjunct1, rule_format, of 2]
  note other = connect_proc_retries
    [where env = "\<lambda>i. if i < 1 then Some EAGAIN else Some (Other_errno 13)" and s = ?s
       and non_blocking = True, THEN conjunct2, THEN conjunct2, THEN conjunct1, rule_format,
     of 1 "Other_errno 13"]
  note exhausted = connect_proc_retries
    [where env = "\<lambda>i. Some EINPROGRESS" and s = ?s
       and non_blocking = True, THEN conjunct2, THEN conjunct2, THEN conjunct2, THEN conjunct1,
     rule_format]
  note invalid = connect_proc_retries
    [where env = "\<lambda>i. None" and s = ?bad and non_blocking = True, THEN conjunct1, rule_format]
  show ?thesis
    using connected other exhausted invalid by simp
qed

end
